theory Spec2Isabelle
  imports Complex_Main
begin

section \<open>Quadrotor reference trajectories: the data model\<close>

text \<open>
  The embedding follows the Python package \<open>quad_trajectories\<close>. Double precision
  numbers are read as real numbers, so every statement below is about the exact
  arithmetic the code approximates. A Python exception is a value \<open>Inl e\<close> of the
  result type, a returned array is \<open>Inr\<close> of the list of its entries.
\<close>

subsection \<open>types.py\<close>

record TrajContext =
  sim :: bool
  hover_mode :: "int option"
  spin :: "bool option"
  double_speed :: "bool option"
  short :: "bool option"

datatype TrajectoryType =
    HOVER | YAW_ONLY | CIRCLE_HORIZONTAL | CIRCLE_VERTICAL
  | FIG8_HORIZONTAL | FIG8_VERTICAL | HELIX | SAWTOOTH | TRIANGLE

subsection \<open>Exceptions\<close>

text \<open>
  One constructor for each place an exception can come from:
  \<^item> \<open>ValueError_hover_not_found m\<close>: \<open>ValueError(f"hover_dict #{mode} not found")\<close> of
    \<open>hover\<close> (the invalid-configuration error);
  \<^item> \<open>RuntimeError_hover_hardware\<close>: \<open>RuntimeError("hover modes 5+ not available for hardware")\<close>
    of \<open>hover\<close> (the hardware-incompatibility error);
  \<^item> \<open>ValueError_num_steps\<close>: \<open>ValueError("num_steps must be >= 1")\<close> of
    \<open>generate_horizon_with_velocity\<close> (the invalid-argument error);
  \<^item> \<open>ValueError_linspace\<close>: the \<open>ValueError\<close> of \<open>jnp.linspace\<close> for a negative number
    of samples;
  \<^item> \<open>TypeError_where\<close>: the \<open>TypeError\<close> of \<open>jnp.where\<close> for a condition that is not
    array-like (\<open>None\<close>);
  \<^item> \<open>TypeError_jit\<close>: the \<open>TypeError\<close> of a \<open>jax.jit\<close>-compiled callable for an argument
    that is neither declared static nor a number or array.
\<close>

datatype error =
    ValueError_hover_not_found int
  | RuntimeError_hover_hardware
  | ValueError_num_steps
  | ValueError_linspace
  | TypeError_where
  | TypeError_jit

type_synonym TrajectoryFunc = "real \<Rightarrow> TrajContext \<Rightarrow> error + real list"

subsection \<open>The Python and JAX operations the code calls\<close>

text \<open>The truth value Python gives an \<open>Optional[bool]\<close> in \<open>if v:\<close> and \<open>a if v else b\<close>.\<close>

definition truthy :: "bool option \<Rightarrow> bool" where
  "truthy v = (case v of None \<Rightarrow> False | Some b \<Rightarrow> b)"

text \<open>
  \<open>jnp.where(cond, a, b)\<close> checks that its arguments are array-like before it selects:
  a Python \<open>bool\<close> or a boolean array is, \<open>None\<close> is not.
\<close>

definition jnp_where :: "bool option \<Rightarrow> real \<Rightarrow> real \<Rightarrow> error + real" where
  "jnp_where cond a b =
     (case cond of None \<Rightarrow> Inl TypeError_where | Some c \<Rightarrow> Inr (if c then a else b))"

text \<open>\<open>a % b\<close> on floats: the remainder has the sign of the divisor.\<close>

definition py_mod :: "real \<Rightarrow> real \<Rightarrow> real" where
  "py_mod a b = a - b * real_of_int \<lfloor>a / b\<rfloor>"

definition jnp_floor :: "real \<Rightarrow> real" where
  "jnp_floor v = real_of_int \<lfloor>v\<rfloor>"

definition jnp_clip :: "real \<Rightarrow> real \<Rightarrow> real \<Rightarrow> real" where
  "jnp_clip v lo hi = min (max v lo) hi"

text \<open>\<open>.astype(int)\<close> rounds towards zero.\<close>

definition astype_int :: "real \<Rightarrow> int" where
  "astype_int v = (if 0 \<le> v then \<lfloor>v\<rfloor> else \<lceil>v\<rceil>)"

text \<open>
  \<open>jnp.linspace(start, stop, num)\<close>: \<open>num\<close> evenly spaced samples with both ends
  included; no sample for \<open>num = 0\<close>, a \<open>ValueError\<close> for a negative \<open>num\<close>.
\<close>

definition jnp_linspace :: "real \<Rightarrow> real \<Rightarrow> int \<Rightarrow> error + real list" where
  "jnp_linspace start stop num =
     (if num < 0 then Inl ValueError_linspace
      else if num = 1 then Inr [start]
      else Inr (map (\<lambda>k. start + real k * ((stop - start) / real_of_int (num - 1)))
                  [0..<nat num]))"

text \<open>
  \<open>vmap(f)(ts)\<close> traces \<open>f\<close> once on the whole batch of times and returns the stacked
  results; an exception \<open>f\<close> raises while it is traced is the exception of the batched
  call, also when the batch is empty. The exceptions of the position functions depend
  on the context only, so the trace of an empty batch is modelled by one call of \<open>f\<close> at
  time 0, whose result is dropped; on a batch with entries the rows are computed in
  order and the first exception ends the call.
\<close>

fun map_batch :: "('a \<Rightarrow> error + 'b) \<Rightarrow> 'a list \<Rightarrow> error + 'b list" where
  "map_batch f [] = Inr []"
| "map_batch f (t # ts) =
     (case f t of
        Inl e \<Rightarrow> Inl e
      | Inr p \<Rightarrow> (case map_batch f ts of Inl e \<Rightarrow> Inl e | Inr ps \<Rightarrow> Inr (p # ps)))"

definition vmap :: "(real \<Rightarrow> error + 'b) \<Rightarrow> real list \<Rightarrow> error + 'b list" where
  "vmap f ts =
     (if ts = [] then (case f 0 of Inl e \<Rightarrow> Inl e | Inr p \<Rightarrow> Inr [])
      else map_batch f ts)"

subsection \<open>jax_utils.py\<close>

text \<open>
  What a call passes to a compiled callable: a number (Python \<open>int\<close> or \<open>float\<close>, or an
  array), a function object, or another Python object such as a \<open>TrajContext\<close>.
\<close>

datatype pyarg = Number | Callable | Object

text \<open>
  \<open>jax.jit(fun, static_argnames = names)\<close>: the compiled callable runs \<open>fun\<close> on its
  arguments. An argument named in \<open>static_argnames\<close> is passed as it is (it has to be
  hashable, which a frozen dataclass is); every other argument is traced and has to be
  a number or an array, otherwise the call raises \<open>TypeError\<close> before \<open>fun\<close> runs.
\<close>

definition jax_jit :: "string list \<Rightarrow> (string \<times> pyarg) list \<Rightarrow> error + 'a \<Rightarrow> error + 'a" where
  "jax_jit static_argnames args body =
     (if list_all (\<lambda>a. fst a \<in> set static_argnames \<or> snd a = Number) args
      then body else Inl TypeError_jit)"

text \<open>The package's own \<open>jit\<close> adds \<open>backend = "cpu"\<close> and calls \<open>jax.jit\<close>.\<close>

definition jit :: "string list \<Rightarrow> (string \<times> pyarg) list \<Rightarrow> error + 'a \<Rightarrow> error + 'a" where
  "jit static_argnames args body = jax_jit static_argnames args body"

section \<open>core.py: the position functions\<close>

definition SIM_HEIGHT :: real where
  "SIM_HEIGHT = 3.0"

definition HARDWARE_HEIGHT :: real where
  "HARDWARE_HEIGHT = 0.85"

definition hover_dict :: "(int \<times> real list) list" where
  "hover_dict =
     [(1, [0.0, 0.0, - 0.9, 0.0]),
      (2, [0.0, 0.8, - 0.9, 0.0]),
      (3, [0.8, 0.0, - 0.8, 0.0]),
      (4, [0.8, 0.8, - 0.8, 0.0]),
      (5, [0.0, 0.0, - 10.0, 0.0]),
      (6, [1.0, 1.0, - 4.0, 0.0]),
      (7, [0.0, 10.0, - 5.0, 0.0]),
      (8, [1.0, 1.0, - 3.0, 0.0])]"

definition hover :: TrajectoryFunc where
  "hover t ctx =
     jit [''ctx''] [(''t'', Number), (''ctx'', Object)]
       (let mode = (case hover_mode ctx of Some m \<Rightarrow> m | None \<Rightarrow> 1);
            sim' = sim ctx
        in if map_of hover_dict mode = None then Inl (ValueError_hover_not_found mode)
           else if \<not> sim' \<and> mode > 4 then Inl RuntimeError_hover_hardware
           else Inr (the (map_of hover_dict mode)))"

definition yaw_only :: TrajectoryFunc where
  "yaw_only t ctx =
     jit [''ctx''] [(''t'', Number), (''ctx'', Object)]
       (let height = (if \<not> sim ctx then HARDWARE_HEIGHT else SIM_HEIGHT);
            spin_period = (if truthy (double_speed ctx) then 20.0 / 2.0 else 20.0);
            x = 0.0;
            y = 0.0;
            z = - height;
            yaw = t / (spin_period / (2 * pi))
        in Inr [x, y, z, yaw])"

definition circle_horizontal :: TrajectoryFunc where
  "circle_horizontal t ctx =
     jit [''ctx''] [(''t'', Number), (''ctx'', Object)]
       (let radius = 0.6;
            height = (if \<not> sim ctx then HARDWARE_HEIGHT else SIM_HEIGHT);
            period_spin = 20.0;
            omega_spin = (if truthy (spin ctx) then 2 * pi / period_spin else 0.0);
            period_pos = (if truthy (double_speed ctx) then 13.0 / 2.0 else 13.0);
            omega_pos = 2 * pi / period_pos;
            x = radius * cos (omega_pos * t);
            y = radius * sin (omega_pos * t);
            z = - height;
            yaw = omega_spin * t
        in Inr [x, y, z, yaw])"

definition circle_vertical :: TrajectoryFunc where
  "circle_vertical t ctx =
     jit [''ctx''] [(''t'', Number), (''ctx'', Object)]
       (let radius = 0.35;
            height = (if \<not> sim ctx then HARDWARE_HEIGHT else SIM_HEIGHT);
            period_spin = 20.0;
            omega_spin = (if truthy (spin ctx) then 2 * pi / period_spin else 0.0);
            period_pos = (if truthy (double_speed ctx) then 13.0 / 2.0 else 13.0);
            omega_pos = 2 * pi / period_pos;
            x = radius * cos (omega_pos * t);
            y = 0.0;
            z = - radius * sin (omega_pos * t) - height;
            yaw = omega_spin * t
        in Inr [x, y, z, yaw])"

definition fig8_horizontal :: TrajectoryFunc where
  "fig8_horizontal t ctx =
     jit [''ctx''] [(''t'', Number), (''ctx'', Object)]
       (let radius = 0.35;
            height = (if \<not> sim ctx then HARDWARE_HEIGHT else SIM_HEIGHT);
            period_spin = 20.0;
            omega_spin = (if truthy (spin ctx) then 2 * pi / period_spin else 0.0);
            period_pos = (if truthy (double_speed ctx) then 13.0 / 2.0 else 13.0);
            omega_pos = 2 * pi / period_pos;
            x = radius * sin (2 * omega_pos * t);
            y = radius * sin (omega_pos * t);
            z = - height;
            yaw = omega_spin * t
        in Inr [x, y, z, yaw])"

definition fig8_vertical :: TrajectoryFunc where
  "fig8_vertical t ctx =
     jit [''ctx''] [(''t'', Number), (''ctx'', Object)]
       (let radius = 0.35;
            height = (if \<not> sim ctx then HARDWARE_HEIGHT else SIM_HEIGHT);
            period_spin = 20.0;
            omega_spin = (if truthy (spin ctx) then 2 * pi / period_spin else 0.0);
            period_pos = (if truthy (double_speed ctx) then 13.0 / 2.0 else 13.0);
            omega_pos = 2 * pi / period_pos;
            x = 0.0;
            yz1 = radius * sin (omega_pos * t);
            yz2 = radius * sin (2 * omega_pos * t)
        in case jnp_where (short ctx) yz1 yz2 of
             Inl e \<Rightarrow> Inl e
           | Inr y \<Rightarrow>
               (case jnp_where (short ctx) (- yz2 - height) (- yz1 - height) of
                  Inl e \<Rightarrow> Inl e
                | Inr z \<Rightarrow> (let yaw = omega_spin * t in Inr [x, y, z, yaw])))"

definition helix :: TrajectoryFunc where
  "helix t ctx =
     jit [''ctx''] [(''t'', Number), (''ctx'', Object)]
       (let z0 = (if \<not> sim ctx then HARDWARE_HEIGHT else 2.0);
            z_max = (if \<not> sim ctx then 2.6 else SIM_HEIGHT);
            radius = 0.6;
            num_turns = 3;
            period_spin = 30.0;
            omega_spin = (if truthy (spin ctx) then 2 * pi / period_spin else 0.0);
            cycle_time = (if truthy (double_speed ctx) then 45.0 / 2.0 else 45.0);
            t_cycle = py_mod t cycle_time;
            T_half = cycle_time / 2.0;
            z_up = z0 + (z_max - z0) * (t_cycle / T_half);
            progress_up = (z_up - z0) / (z_max - z0);
            t_down = t_cycle - T_half;
            z_down = z_max - (z_max - z0) * (t_down / T_half);
            progress_down = (z_down - z0) / (z_max - z0)
        in case jnp_where (Some (t_cycle \<le> T_half)) z_up z_down of
             Inl e \<Rightarrow> Inl e
           | Inr z \<Rightarrow>
               (case jnp_where (Some (t_cycle \<le> T_half)) progress_up progress_down of
                  Inl e \<Rightarrow> Inl e
                | Inr progress \<Rightarrow>
                    (let theta = 2 * pi * num_turns * progress;
                         x = radius * cos theta;
                         y = radius * sin theta;
                         yaw = omega_spin * t
                     in Inr [x, y, - z, yaw])))"

definition sawtooth_points :: "real list list" where
  "sawtooth_points =
     [[0.0, 0.0], [0.0, 0.4], [0.4, - 0.4], [0.4, 0.4], [0.4, - 0.4],
      [0.0, 0.4], [0.0, - 0.4], [- 0.4, 0.4], [- 0.4, - 0.4],
      [- 0.4, 0.4], [0.0, - 0.4], [0.0, 0.0]]"

definition sawtooth :: TrajectoryFunc where
  "sawtooth t ctx =
     jit [''ctx''] [(''t'', Number), (''ctx'', Object)]
       (let height = (if \<not> sim ctx then HARDWARE_HEIGHT else SIM_HEIGHT);
            flight_time = 120.0;
            num_repeats = (if truthy (double_speed ctx) then 2 else 1);
            period_spin = 30.0;
            omega_spin = (if truthy (spin ctx) then 2 * pi / period_spin else 0.0);
            points = sawtooth_points;
            adjusted_flight_time = flight_time / num_repeats;
            num_segments = int (length points) - 1;
            T_seg = adjusted_flight_time / real_of_int num_segments;
            cycle_time = py_mod t (real_of_int num_segments * T_seg);
            segment_idx = astype_int
              (jnp_clip (jnp_floor (cycle_time / T_seg)) 0 (real_of_int (num_segments - 1)));
            local_time = cycle_time - real_of_int segment_idx * T_seg;
            start_point = points ! nat segment_idx;
            end_point = points ! nat ((segment_idx + 1) mod int (length points));
            alpha = local_time / T_seg;
            x = start_point ! 0 + (end_point ! 0 - start_point ! 0) * alpha;
            y = start_point ! 1 + (end_point ! 1 - start_point ! 1) * alpha;
            z = - height;
            yaw = omega_spin * t
        in Inr [x, y, z, yaw])"

definition triangle_points :: "real list list" where
  "triangle_points =
     (let side_length = 0.8;
          h = sqrt (side_length ^ 2 - (side_length / 2) ^ 2)
      in [[0.0, h / 2], [side_length / 2, - h / 2], [- side_length / 2, - h / 2]])"

definition triangle :: TrajectoryFunc where
  "triangle t ctx =
     jit [''ctx''] [(''t'', Number), (''ctx'', Object)]
       (let height = (if \<not> sim ctx then HARDWARE_HEIGHT else SIM_HEIGHT);
            flight_time = 60.0;
            num_repeats = (if truthy (double_speed ctx) then 2 else 1);
            period_spin = 20.0;
            omega_spin = (if truthy (spin ctx) then 2 * pi / period_spin else 0.0);
            points = triangle_points;
            T_seg = flight_time / (3 * num_repeats);
            cycle_time = py_mod t (3 * T_seg);
            segment_idx = astype_int (jnp_clip (jnp_floor (cycle_time / T_seg)) 0 2);
            local_time = cycle_time - real_of_int segment_idx * T_seg;
            start_point = points ! nat segment_idx;
            end_point = points ! nat ((segment_idx + 1) mod 3);
            alpha = local_time / T_seg;
            x = start_point ! 0 + (end_point ! 0 - start_point ! 0) * alpha;
            y = start_point ! 1 + (end_point ! 1 - start_point ! 1) * alpha;
            z = - height;
            yaw = omega_spin * t
        in Inr [x, y, z, yaw])"

section \<open>registry.py\<close>

fun TRAJ_REGISTRY :: "TrajectoryType \<Rightarrow> TrajectoryFunc" where
  "TRAJ_REGISTRY HOVER = hover"
| "TRAJ_REGISTRY YAW_ONLY = yaw_only"
| "TRAJ_REGISTRY CIRCLE_HORIZONTAL = circle_horizontal"
| "TRAJ_REGISTRY CIRCLE_VERTICAL = circle_vertical"
| "TRAJ_REGISTRY FIG8_HORIZONTAL = fig8_horizontal"
| "TRAJ_REGISTRY FIG8_VERTICAL = fig8_vertical"
| "TRAJ_REGISTRY HELIX = helix"
| "TRAJ_REGISTRY SAWTOOTH = sawtooth"
| "TRAJ_REGISTRY TRIANGLE = triangle"

section \<open>utils.py: the horizon utilities\<close>

text \<open>
  \<open>jacfwd\<close> is the forward-mode differentiation of JAX, a capability the package calls
  and does not implement: the utilities take it as a parameter, \<open>jacfwd g t\<close> being the
  derivative of \<open>g\<close> at \<open>t\<close> (or the exception raised while tracing \<open>g\<close>).
\<close>

type_synonym jacfwd_engine = "(real \<Rightarrow> error + real list) \<Rightarrow> real \<Rightarrow> error + real list"

text \<open>The function as written, before the decorator is applied.\<close>

definition generate_horizon_positions_body ::
  "TrajectoryFunc \<Rightarrow> TrajContext \<Rightarrow> real \<Rightarrow> real \<Rightarrow> int \<Rightarrow> error + real list list" where
  "generate_horizon_positions_body traj_fn ctx t_start horizon num_steps =
     (case (if num_steps = 1 then Inr [t_start]
            else jnp_linspace t_start (t_start + horizon) num_steps) of
        Inl e \<Rightarrow> Inl e
      | Inr t_samples \<Rightarrow> vmap (\<lambda>t. traj_fn t ctx) t_samples)"

text \<open>
  The decorator is the bare \<open>@jit\<close>: no argument is static, so the trajectory function
  and the context are traced like the three numbers.
\<close>

definition generate_horizon_positions ::
  "TrajectoryFunc \<Rightarrow> TrajContext \<Rightarrow> real \<Rightarrow> real \<Rightarrow> int \<Rightarrow> error + real list list" where
  "generate_horizon_positions traj_fn ctx t_start horizon num_steps =
     jit [] [(''traj_fn'', Callable), (''ctx'', Object), (''t_start'', Number),
             (''horizon'', Number), (''num_steps'', Number)]
       (generate_horizon_positions_body traj_fn ctx t_start horizon num_steps)"

definition generate_horizon_with_velocity ::
  "jacfwd_engine \<Rightarrow> TrajectoryFunc \<Rightarrow> TrajContext \<Rightarrow> real \<Rightarrow> real \<Rightarrow> int
     \<Rightarrow> error + (real list list \<times> real list list)" where
  "generate_horizon_with_velocity jacfwd traj_fn ctx t_start horizon num_steps =
     (if num_steps \<le> 0 then Inl ValueError_num_steps
      else
        case (if num_steps = 1 then Inr [t_start]
              else jnp_linspace t_start (t_start + horizon) num_steps) of
          Inl e \<Rightarrow> Inl e
        | Inr t_samples \<Rightarrow>
            (let one_sample = (\<lambda>t.
                   case traj_fn t ctx of
                     Inl e \<Rightarrow> Inl e
                   | Inr pos \<Rightarrow>
                       (case jacfwd (\<lambda>t'. traj_fn t' ctx) t of
                          Inl e \<Rightarrow> Inl e
                        | Inr vel \<Rightarrow> Inr (pos, vel)))
             in case vmap one_sample t_samples of
                  Inl e \<Rightarrow> Inl e
                | Inr samples \<Rightarrow> Inr (map fst samples, map snd samples)))"

definition generate_reference_trajectory ::
  "jacfwd_engine \<Rightarrow> TrajectoryFunc \<Rightarrow> real \<Rightarrow> real \<Rightarrow> int \<Rightarrow> TrajContext
     \<Rightarrow> error + (real list list \<times> real list list)" where
  "generate_reference_trajectory jacfwd traj_func t_start horizon num_steps ctx =
     generate_horizon_with_velocity jacfwd traj_func ctx t_start horizon num_steps"

section \<open>The notions the properties are stated with\<close>

text \<open>The context that sets only the required field.\<close>

definition default_ctx :: "bool \<Rightarrow> TrajContext" where
  "default_ctx s =
     \<lparr>sim = s, hover_mode = None, spin = None, double_speed = None, short = None\<rparr>"

text \<open>The hover slot in effect: \<open>hover_mode\<close> when it is set, slot 1 otherwise.\<close>

definition hover_slot :: "TrajContext \<Rightarrow> int" where
  "hover_slot ctx = (case hover_mode ctx of Some m \<Rightarrow> m | None \<Rightarrow> 1)"

text \<open>The first three and the first two components of a call's outcome.\<close>

definition xyz :: "error + real list \<Rightarrow> error + real \<times> real \<times> real" where
  "xyz r = (case r of Inl e \<Rightarrow> Inl e | Inr v \<Rightarrow> Inr (v ! 0, v ! 1, v ! 2))"

definition xy :: "error + real list \<Rightarrow> error + real \<times> real" where
  "xy r = (case r of Inl e \<Rightarrow> Inl e | Inr v \<Rightarrow> Inr (v ! 0, v ! 1))"

text \<open>The period of the circles and figure-eights: 13 seconds, halved at double speed.\<close>

definition period_pos :: "TrajContext \<Rightarrow> real" where
  "period_pos ctx = (if truthy (double_speed ctx) then 13 / 2 else 13)"

text \<open>
  Segment and cycle durations of the waypoint trajectories: the flight time (120 s for
  the sawtooth, 60 s for the triangle) over the number of repeats is one cycle, cut into
  11 and 3 equal segments.
\<close>

definition sawtooth_cycle :: "TrajContext \<Rightarrow> real" where
  "sawtooth_cycle ctx = 120 / (if truthy (double_speed ctx) then 2 else 1)"

definition sawtooth_segment :: "TrajContext \<Rightarrow> real" where
  "sawtooth_segment ctx = sawtooth_cycle ctx / 11"

definition triangle_cycle :: "TrajContext \<Rightarrow> real" where
  "triangle_cycle ctx = 60 / (if truthy (double_speed ctx) then 2 else 1)"

definition triangle_segment :: "TrajContext \<Rightarrow> real" where
  "triangle_segment ctx = triangle_cycle ctx / 3"

text \<open>The altitude band of the helix: lower and upper height, selected by \<open>sim\<close>.\<close>

definition helix_z0 :: "TrajContext \<Rightarrow> real" where
  "helix_z0 ctx = (if sim ctx then 2.0 else 0.85)"

definition helix_z_max :: "TrajContext \<Rightarrow> real" where
  "helix_z_max ctx = (if sim ctx then 3.0 else 2.6)"

section \<open>Auxiliary facts\<close>

lemma jit_ctx: "jit [''ctx''] [(''t'', Number), (''ctx'', Object)] body = body"
  by (simp add: jit_def jax_jit_def)

lemma py_mod_nonneg: "0 < b \<Longrightarrow> 0 \<le> py_mod a b"
proof -
  assume b: "0 < b"
  have "real_of_int \<lfloor>a / b\<rfloor> \<le> a / b" by simp
  then have "b * real_of_int \<lfloor>a / b\<rfloor> \<le> b * (a / b)"
    using b by (simp only: mult_le_cancel_left_pos)
  then show ?thesis using b by (simp add: py_mod_def)
qed

lemma py_mod_less: "0 < b \<Longrightarrow> py_mod a b < b"
proof -
  assume b: "0 < b"
  have "a / b < real_of_int \<lfloor>a / b\<rfloor> + 1" by linarith
  then have "b * (a / b) < b * (real_of_int \<lfloor>a / b\<rfloor> + 1)"
    using b by (simp only: mult_less_cancel_left_pos)
  then show ?thesis using b by (simp add: py_mod_def algebra_simps)
qed

lemma py_mod_shift:
  assumes "0 < c" "0 \<le> r" "r < c"
  shows "py_mod (r + real_of_int j * c) c = r"
proof -
  have "(r + real_of_int j * c) / c = r / c + real_of_int j"
    using assms by (simp add: field_simps)
  moreover have "\<lfloor>r / c\<rfloor> = 0"
    using assms by (simp add: floor_eq_iff)
  ultimately have "\<lfloor>(r + real_of_int j * c) / c\<rfloor> = j"
    by (simp add: floor_add_int [symmetric])
  then show ?thesis by (simp add: py_mod_def)
qed

lemma sin_two_turns: "sin (x + 4 * pi) = sin x"
  using sin_periodic [of "x + 2 * pi"] by (simp add: add.assoc)

lemma hover_dict_keys: "map_of hover_dict m = None \<longleftrightarrow> m < 1 \<or> 8 < m"
  by (auto simp: hover_dict_def)

lemma hover_dict_rows:
  assumes "1 \<le> m" "m \<le> 8"
  shows "\<exists>v. map_of hover_dict m = Some v \<and> length v = 4 \<and> v ! 3 = 0"
proof -
  from assms
  have "m = 1 \<or> m = 2 \<or> m = 3 \<or> m = 4 \<or> m = 5 \<or> m = 6 \<or> m = 7 \<or> m = 8"
    by arith
  then show ?thesis
    by (elim disjE) (simp_all add: hover_dict_def)
qed

lemma hover_eq:
  "hover t ctx =
     (if hover_slot ctx < 1 \<or> 8 < hover_slot ctx
        then Inl (ValueError_hover_not_found (hover_slot ctx))
      else if \<not> sim ctx \<and> 4 < hover_slot ctx then Inl RuntimeError_hover_hardware
      else Inr (the (map_of hover_dict (hover_slot ctx))))"
  by (simp add: hover_def jit_ctx Let_def hover_dict_keys hover_slot_def)

lemma helix_shape: "\<exists>x y z yaw. helix t ctx = Inr [x, y, z, yaw]"
  unfolding helix_def jit_ctx Let_def jnp_where_def option.case sum.case by blast

lemma helix_third:
  assumes "helix t ctx = Inr v"
  shows "- helix_z_max ctx \<le> v ! 2 \<and> v ! 2 \<le> - helix_z0 ctx"
proof -
  have a: "0 \<le> py_mod t 45" "py_mod t 45 < 45"
    using py_mod_nonneg [of 45 t] py_mod_less [of 45 t] by simp_all
  have b: "0 \<le> py_mod t (45 / 2)" "py_mod t (45 / 2) < 45 / 2"
    using py_mod_nonneg [of "45 / 2" t] py_mod_less [of "45 / 2" t] by simp_all
  show ?thesis
  proof (cases "sim ctx")
    case True
    show ?thesis
    proof (cases "truthy (double_speed ctx)")
      case True
      with \<open>sim ctx\<close> assms b show ?thesis
        by (auto simp: helix_def jit_ctx Let_def jnp_where_def helix_z0_def helix_z_max_def
            SIM_HEIGHT_def HARDWARE_HEIGHT_def field_simps split: if_splits)
    next
      case False
      with \<open>sim ctx\<close> assms a show ?thesis
        by (auto simp: helix_def jit_ctx Let_def jnp_where_def helix_z0_def helix_z_max_def
            SIM_HEIGHT_def HARDWARE_HEIGHT_def field_simps split: if_splits)
    qed
  next
    case False
    show ?thesis
    proof (cases "truthy (double_speed ctx)")
      case True
      with \<open>\<not> sim ctx\<close> assms b show ?thesis
        by (auto simp: helix_def jit_ctx Let_def jnp_where_def helix_z0_def helix_z_max_def
            SIM_HEIGHT_def HARDWARE_HEIGHT_def field_simps split: if_splits)
    next
      case False
      with \<open>\<not> sim ctx\<close> assms a show ?thesis
        by (auto simp: helix_def jit_ctx Let_def jnp_where_def helix_z0_def helix_z_max_def
            SIM_HEIGHT_def HARDWARE_HEIGHT_def field_simps split: if_splits)
    qed
  qed
qed

lemma map_batch_defined: "(\<And>t. f t = Inr (g t)) \<Longrightarrow> map_batch f ts = Inr (map g ts)"
  by (induction ts) simp_all

lemma vmap_defined: "(\<And>t. f t = Inr (g t)) \<Longrightarrow> vmap f ts = Inr (map g ts)"
  by (simp add: vmap_def map_batch_defined)

lemma vmap_raises: "f 0 = Inl e \<Longrightarrow> vmap f [] = Inl e"
  by (simp add: vmap_def)

lemma yaw_only_defined: "\<exists>x y z yaw. yaw_only t ctx = Inr [x, y, z, yaw]"
  unfolding yaw_only_def jit_ctx Let_def by blast

lemma circle_horizontal_defined: "\<exists>x y z yaw. circle_horizontal t ctx = Inr [x, y, z, yaw]"
  unfolding circle_horizontal_def jit_ctx Let_def by blast

lemma circle_vertical_defined: "\<exists>x y z yaw. circle_vertical t ctx = Inr [x, y, z, yaw]"
  unfolding circle_vertical_def jit_ctx Let_def by blast

lemma fig8_horizontal_defined: "\<exists>x y z yaw. fig8_horizontal t ctx = Inr [x, y, z, yaw]"
  unfolding fig8_horizontal_def jit_ctx Let_def by blast

lemma fig8_vertical_defined:
  "short ctx = Some b \<Longrightarrow> \<exists>x y z yaw. fig8_vertical t ctx = Inr [x, y, z, yaw]"
  unfolding fig8_vertical_def jit_ctx Let_def jnp_where_def
  by (simp only: option.case sum.case) blast

lemma sawtooth_defined: "\<exists>x y z yaw. sawtooth t ctx = Inr [x, y, z, yaw]"
  unfolding sawtooth_def jit_ctx Let_def by blast

lemma triangle_defined: "\<exists>x y z yaw. triangle t ctx = Inr [x, y, z, yaw]"
  unfolding triangle_def jit_ctx Let_def by blast

lemma sawtooth_boundary:
  assumes "k < 11"
  shows "xy (sawtooth (real k * sawtooth_segment ctx + real_of_int j * sawtooth_cycle ctx) ctx)
         = Inr (sawtooth_points ! k ! 0, sawtooth_points ! k ! 1)"
proof -
  define T where "T = sawtooth_segment ctx"
  define t where "t = real k * T + real_of_int j * (11 * T)"
  have T: "0 < T" by (simp add: T_def sawtooth_segment_def sawtooth_cycle_def)
  have cyc: "sawtooth_cycle ctx = 11 * T" by (simp add: T_def sawtooth_segment_def)
  have len: "length sawtooth_points = 12" by (simp add: sawtooth_points_def)
  have seg: "120.0 / (if truthy (double_speed ctx) then 2 else 1)
               / real_of_int (int (length sawtooth_points) - 1) = T"
    by (simp add: T_def sawtooth_segment_def sawtooth_cycle_def len)
  have "real k * T < 11 * T" using assms T by simp
  then have m: "py_mod t (11 * T) = real k * T"
    unfolding t_def using T by (intro py_mod_shift) simp_all
  have idx: "astype_int (jnp_clip (jnp_floor (real k)) 0 10) = int k"
    using assms by (simp add: jnp_floor_def jnp_clip_def astype_int_def)
  have "xy (sawtooth t ctx) = Inr (sawtooth_points ! k ! 0, sawtooth_points ! k ! 1)"
    unfolding sawtooth_def Let_def jit_ctx seg
    using T by (simp add: len m idx xy_def)
  then show ?thesis by (simp add: t_def cyc T_def)
qed

lemma triangle_boundary:
  assumes "k < 3"
  shows "xy (triangle (real k * triangle_segment ctx + real_of_int j * triangle_cycle ctx) ctx)
         = Inr (triangle_points ! k ! 0, triangle_points ! k ! 1)"
proof -
  define T where "T = triangle_segment ctx"
  define t where "t = real k * T + real_of_int j * (3 * T)"
  have T: "0 < T" by (simp add: T_def triangle_segment_def triangle_cycle_def)
  have cyc: "triangle_cycle ctx = 3 * T" by (simp add: T_def triangle_segment_def)
  have seg: "60.0 / (3 * (if truthy (double_speed ctx) then 2 else 1)) = T"
    by (simp add: T_def triangle_segment_def triangle_cycle_def)
  have "real k * T < 3 * T" using assms T by simp
  then have m: "py_mod t (3 * T) = real k * T"
    unfolding t_def using T by (intro py_mod_shift) simp_all
  have idx: "astype_int (jnp_clip (jnp_floor (real k)) 0 2) = int k"
    using assms by (simp add: jnp_floor_def jnp_clip_def astype_int_def)
  have "xy (triangle t ctx) = Inr (triangle_points ! k ! 0, triangle_points ! k ! 1)"
    unfolding triangle_def Let_def jit_ctx seg
    using T by (simp add: m idx xy_def)
  then show ?thesis by (simp add: t_def cyc T_def)
qed

section \<open>The hover presets\<close>

text \<open>
  Claim C4. With \<open>m\<close> the hover slot in effect (\<open>hover_mode\<close> if set, else 1), and the
  cases read in the order the sentence gives them: \<open>hover\<close> raises the
  invalid-configuration error when \<open>m\<close> is outside 1..8; it raises the
  hardware-incompatibility error when \<open>sim\<close> is false and \<open>m > 4\<close>; otherwise it returns
  the row of slot \<open>m\<close> in the table of eight presets, a 4-vector whose yaw is 0. The
  time argument plays no part.
\<close>

theorem hover_outcome:
  "(if hover_slot ctx < 1 \<or> 8 < hover_slot ctx
      then hover t ctx = Inl (ValueError_hover_not_found (hover_slot ctx))
    else if \<not> sim ctx \<and> 4 < hover_slot ctx
      then hover t ctx = Inl RuntimeError_hover_hardware
    else (\<exists>v. map_of hover_dict (hover_slot ctx) = Some v \<and> length v = 4 \<and> v ! 3 = 0
              \<and> hover t ctx = Inr v))"
proof -
  consider (out) "hover_slot ctx < 1 \<or> 8 < hover_slot ctx"
    | (hw) "1 \<le> hover_slot ctx" "hover_slot ctx \<le> 8" "\<not> sim ctx \<and> 4 < hover_slot ctx"
    | (ok) "1 \<le> hover_slot ctx" "hover_slot ctx \<le> 8" "\<not> (\<not> sim ctx \<and> 4 < hover_slot ctx)"
    by linarith
  then show ?thesis
  proof cases
    case out
    then show ?thesis by (simp add: hover_eq)
  next
    case hw
    then show ?thesis by (simp add: hover_eq)
  next
    case ok
    from hover_dict_rows [OF ok(1,2)] obtain v
      where row: "map_of hover_dict (hover_slot ctx) = Some v" "length v = 4" "v ! 3 = 0"
      by blast
    have "hover t ctx = Inr v"
      using ok row(1) by (simp add: hover_eq)
    with ok row show ?thesis by auto
  qed
qed

text \<open>
  The three scenarios of the specification: slot 9 is not found, slot 5 is refused on
  hardware, slot 5 in simulation hovers at \<open>[0, 0, -10, 0]\<close>.
\<close>

theorem hover_outcome_witness:
  "hover 0 ((default_ctx True)\<lparr>hover_mode := Some 9\<rparr>) = Inl (ValueError_hover_not_found 9)
   \<and> hover 0 ((default_ctx False)\<lparr>hover_mode := Some 5\<rparr>) = Inl RuntimeError_hover_hardware
   \<and> hover 0 ((default_ctx True)\<lparr>hover_mode := Some 5\<rparr>) = Inr [0, 0, - 10, 0]"
  using hover_outcome [of "(default_ctx True)\<lparr>hover_mode := Some 9\<rparr>" 0]
    hover_outcome [of "(default_ctx False)\<lparr>hover_mode := Some 5\<rparr>" 0]
    hover_outcome [of "(default_ctx True)\<lparr>hover_mode := Some 5\<rparr>" 0]
  by (auto simp: hover_slot_def default_ctx_def hover_dict_def)

text \<open>
  Claim C9. The slot is looked up before the hardware check: when the slot in effect is
  outside 1..8 and \<open>sim\<close> is false, \<open>hover\<close> raises the invalid-configuration error and
  not the hardware-incompatibility error; slot 0 is reported as invalid configuration
  whatever \<open>sim\<close> is.
\<close>

theorem hover_slot_checked_first:
  "((hover_slot ctx < 1 \<or> 8 < hover_slot ctx) \<and> \<not> sim ctx \<longrightarrow>
      hover t ctx = Inl (ValueError_hover_not_found (hover_slot ctx))
      \<and> hover t ctx \<noteq> Inl RuntimeError_hover_hardware)
   \<and> (hover_mode ctx = Some 0 \<longrightarrow> hover t ctx = Inl (ValueError_hover_not_found 0))"
  by (auto simp: hover_eq hover_slot_def)

theorem hover_slot_checked_first_witness:
  "hover 0 ((default_ctx False)\<lparr>hover_mode := Some 9\<rparr>) = Inl (ValueError_hover_not_found 9)
   \<and> hover 0 ((default_ctx False)\<lparr>hover_mode := Some 0\<rparr>) = Inl (ValueError_hover_not_found 0)
   \<and> hover 0 ((default_ctx True)\<lparr>hover_mode := Some 0\<rparr>) = Inl (ValueError_hover_not_found 0)"
  using hover_slot_checked_first [of "(default_ctx False)\<lparr>hover_mode := Some 9\<rparr>" 0]
    hover_slot_checked_first [of "(default_ctx False)\<lparr>hover_mode := Some 0\<rparr>" 0]
    hover_slot_checked_first [of "(default_ctx True)\<lparr>hover_mode := Some 0\<rparr>" 0]
  by (simp add: hover_slot_def default_ctx_def)

section \<open>The closed curves\<close>

text \<open>
  Claim C7. At \<open>t = 0\<close>, in simulation and with spin disabled (unset or false),
  \<open>circle_horizontal\<close> returns exactly \<open>[0.6, 0.0, -3.0, 0.0]\<close>.
\<close>

theorem circle_horizontal_start:
  "sim ctx \<Longrightarrow> \<not> truthy (spin ctx) \<Longrightarrow> circle_horizontal 0 ctx = Inr [0.6, 0.0, - 3.0, 0.0]"
  by (simp add: circle_horizontal_def jit_ctx Let_def SIM_HEIGHT_def)

theorem circle_horizontal_start_witness:
  "circle_horizontal 0 ((default_ctx True)\<lparr>spin := Some False\<rparr>) = Inr [0.6, 0.0, - 3.0, 0.0]"
  using circle_horizontal_start [of "(default_ctx True)\<lparr>spin := Some False\<rparr>"]
  by (simp add: default_ctx_def truthy_def)

text \<open>
  Periodicity where the functions return. \<open>circle_horizontal\<close>, \<open>circle_vertical\<close> and
  \<open>fig8_horizontal\<close> return for every context and every time \<open>t\<close>, and the \<open>x\<close>, \<open>y\<close>,
  \<open>z\<close> returned at \<open>t + P\<close> are those returned at \<open>t\<close>, where \<open>P\<close> is 13 seconds, halved
  when \<open>double_speed\<close> holds. \<open>fig8_vertical\<close> has the same outcome at \<open>t + P\<close> and at
  \<open>t\<close>, and that outcome is a position once \<open>short\<close> is set.
\<close>

lemma closed_curves_periodic:
  "(\<exists>p. xyz (circle_horizontal (t + period_pos ctx) ctx) = Inr p
         \<and> xyz (circle_horizontal t ctx) = Inr p)
   \<and> (\<exists>p. xyz (circle_vertical (t + period_pos ctx) ctx) = Inr p
         \<and> xyz (circle_vertical t ctx) = Inr p)
   \<and> (\<exists>p. xyz (fig8_horizontal (t + period_pos ctx) ctx) = Inr p
         \<and> xyz (fig8_horizontal t ctx) = Inr p)
   \<and> xyz (fig8_vertical (t + period_pos ctx) ctx) = xyz (fig8_vertical t ctx)
   \<and> (short ctx \<noteq> None \<longrightarrow> (\<exists>p. xyz (fig8_vertical t ctx) = Inr p))"
proof (intro conjI impI)
  have "xyz (circle_horizontal (t + period_pos ctx) ctx) = xyz (circle_horizontal t ctx)"
    by (simp add: circle_horizontal_def jit_ctx Let_def xyz_def period_pos_def distrib_left)
  moreover obtain x y z yaw where "circle_horizontal t ctx = Inr [x, y, z, yaw]"
    using circle_horizontal_defined by blast
  ultimately show "\<exists>p. xyz (circle_horizontal (t + period_pos ctx) ctx) = Inr p
      \<and> xyz (circle_horizontal t ctx) = Inr p"
    by (simp add: xyz_def)
next
  have "xyz (circle_vertical (t + period_pos ctx) ctx) = xyz (circle_vertical t ctx)"
    by (simp add: circle_vertical_def jit_ctx Let_def xyz_def period_pos_def distrib_left)
  moreover obtain x y z yaw where "circle_vertical t ctx = Inr [x, y, z, yaw]"
    using circle_vertical_defined by blast
  ultimately show "\<exists>p. xyz (circle_vertical (t + period_pos ctx) ctx) = Inr p
      \<and> xyz (circle_vertical t ctx) = Inr p"
    by (simp add: xyz_def)
next
  have "xyz (fig8_horizontal (t + period_pos ctx) ctx) = xyz (fig8_horizontal t ctx)"
    by (simp add: fig8_horizontal_def jit_ctx Let_def xyz_def period_pos_def distrib_left
        sin_two_turns)
  moreover obtain x y z yaw where "fig8_horizontal t ctx = Inr [x, y, z, yaw]"
    using fig8_horizontal_defined by blast
  ultimately show "\<exists>p. xyz (fig8_horizontal (t + period_pos ctx) ctx) = Inr p
      \<and> xyz (fig8_horizontal t ctx) = Inr p"
    by (simp add: xyz_def)
next
  show "xyz (fig8_vertical (t + period_pos ctx) ctx) = xyz (fig8_vertical t ctx)"
    by (cases "short ctx")
      (simp_all add: fig8_vertical_def jit_ctx Let_def xyz_def period_pos_def distrib_left
        sin_two_turns jnp_where_def)
next
  assume "short ctx \<noteq> None"
  then obtain b where "short ctx = Some b" by auto
  from fig8_vertical_defined [OF this] obtain x y z yaw
    where "fig8_vertical t ctx = Inr [x, y, z, yaw]" by blast
  then show "\<exists>p. xyz (fig8_vertical t ctx) = Inr p"
    by (simp add: xyz_def)
qed

text \<open>
  Claim C5 says that for \<open>circle_horizontal\<close>, \<open>circle_vertical\<close>, \<open>fig8_horizontal\<close> and
  \<open>fig8_vertical\<close>, for every context and every time \<open>t\<close>, the \<open>x\<close>, \<open>y\<close>, \<open>z\<close> of the
  position at \<open>t + P\<close> equal those of the position at \<open>t\<close>. For \<open>fig8_vertical\<close> the
  code has no position to compare when \<open>short\<close> is left unset: at the context
  \<open>TrajContext(sim=True)\<close> the calls at \<open>t = 0\<close> and one period later both raise the
  \<open>TypeError\<close> of \<open>jnp.where\<close>, and no call at any time returns.
\<close>

theorem fig8_vertical_period_default_ctx_raises:
  "xyz (fig8_vertical 0 (default_ctx True)) = Inl TypeError_where
   \<and> xyz (fig8_vertical (0 + period_pos (default_ctx True)) (default_ctx True))
       = Inl TypeError_where
   \<and> \<not> (\<exists>t p. xyz (fig8_vertical t (default_ctx True)) = Inr p)"
  by (simp add: fig8_vertical_def jit_ctx jnp_where_def Let_def default_ctx_def xyz_def)

section \<open>The helix\<close>

text \<open>
  Claim C10. For every time \<open>t\<close> and every context, \<open>helix\<close> returns a 4-vector whose
  third entry lies between \<open>- z_max\<close> and \<open>- z0\<close>, the heights selected by \<open>sim\<close>
  (2.0 and 3.0 in simulation, 0.85 and 2.6 on hardware).
\<close>

theorem helix_altitude_band:
  "\<exists>x y z yaw. helix t ctx = Inr [x, y, z, yaw]
      \<and> - helix_z_max ctx \<le> z \<and> z \<le> - helix_z0 ctx"
proof -
  obtain x y z yaw where v: "helix t ctx = Inr [x, y, z, yaw]"
    using helix_shape by blast
  from helix_third [OF v] have "- helix_z_max ctx \<le> z \<and> z \<le> - helix_z0 ctx"
    by simp
  with v show ?thesis by blast
qed

section \<open>The horizon utilities\<close>

text \<open>
  Claim C8. \<open>generate_reference_trajectory\<close> returns what
  \<open>generate_horizon_with_velocity\<close> returns on the same arguments, the exception
  included, whatever the differentiation engine, the trajectory function, the context,
  the start time, the horizon and the number of steps are.
\<close>

theorem generate_reference_trajectory_same:
  "generate_reference_trajectory jacfwd traj_func t_start horizon num_steps ctx =
     generate_horizon_with_velocity jacfwd traj_func ctx t_start horizon num_steps"
  by (simp add: generate_reference_trajectory_def)

section \<open>The waypoint trajectories\<close>

text \<open>
  Claim C6. For \<open>sawtooth\<close> and \<open>triangle\<close>, every context and every segment boundary
  \<open>k\<close> (0..10 of the 11 sawtooth segments, 0..2 of the 3 triangle segments): at the
  time \<open>k * segment_duration\<close>, and at every time that differs from it by whole cycles,
  the \<open>x\<close> and \<open>y\<close> returned are the coordinates of waypoint \<open>k\<close> of the fixed list
  (12 points for the sawtooth, 3 vertices for the triangle).
\<close>

theorem waypoints_passed:
  "(k < 11 \<longrightarrow>
      xy (sawtooth (real k * sawtooth_segment ctx + real_of_int j * sawtooth_cycle ctx) ctx)
        = Inr (sawtooth_points ! k ! 0, sawtooth_points ! k ! 1))
   \<and> (k < 3 \<longrightarrow>
      xy (triangle (real k * triangle_segment ctx + real_of_int j * triangle_cycle ctx) ctx)
        = Inr (triangle_points ! k ! 0, triangle_points ! k ! 1))
   \<and> length sawtooth_points = 12 \<and> length triangle_points = 3"
proof -
  have "length sawtooth_points = 12"
    by (simp add: sawtooth_points_def)
  moreover have "length triangle_points = 3"
    by (simp add: triangle_points_def Let_def)
  ultimately show ?thesis
    using sawtooth_boundary [of k ctx j] triangle_boundary [of k ctx j] by simp
qed

text \<open>
  Third waypoint of each list, one cycle before the origin of time: the sawtooth at
  \<open>2 * 120/11 - 120\<close> seconds, the triangle at \<open>2 * 20 - 60\<close> seconds.
\<close>

theorem waypoints_passed_witness:
  "xy (sawtooth (240 / 11 - 120) (default_ctx True)) = Inr (0.4, - 0.4)
   \<and> xy (triangle (- 20) (default_ctx True))
       = Inr (- 0.8 / 2, - sqrt (0.8 ^ 2 - (0.8 / 2) ^ 2) / 2)"
  using waypoints_passed [of 2 "default_ctx True" "- 1"]
  by (simp add: sawtooth_segment_def sawtooth_cycle_def triangle_segment_def
      triangle_cycle_def default_ctx_def truthy_def sawtooth_points_def triangle_points_def
      Let_def)

section \<open>Where a position function is defined\<close>

text \<open>
  Every position function but \<open>hover\<close> returns a 4-vector for every time and every
  context, with one exception: \<open>fig8_vertical\<close> needs \<open>short\<close> to be set.
\<close>

lemma position_defined:
  assumes "tt \<noteq> HOVER" and "tt = FIG8_VERTICAL \<longrightarrow> short ctx \<noteq> None"
  shows "\<exists>x y z yaw. TRAJ_REGISTRY tt t ctx = Inr [x, y, z, yaw]"
proof (cases tt)
  case FIG8_VERTICAL
  with assms obtain b where "short ctx = Some b" by auto
  from fig8_vertical_defined [OF this] FIG8_VERTICAL show ?thesis by simp
qed (use assms in \<open>simp_all add: yaw_only_defined circle_horizontal_defined
       circle_vertical_defined fig8_horizontal_defined sawtooth_defined triangle_defined
       helix_shape\<close>)

lemma fig8_vertical_short_unset:
  "short ctx = None \<Longrightarrow> fig8_vertical t ctx = Inl TypeError_where"
  by (simp add: fig8_vertical_def jit_ctx jnp_where_def Let_def)

text \<open>
  Claim C1 says that every position function other than \<open>hover\<close> returns a 4-vector for
  every context, the contexts that leave \<open>spin\<close>, \<open>double_speed\<close> and \<open>short\<close> unset
  included. The code does not: \<open>fig8_vertical\<close> hands \<open>ctx.short\<close> to \<open>jnp.where\<close> as
  the condition, and with \<open>short\<close> left at its default \<open>None\<close> the call raises
  \<open>TypeError\<close>, here for the context \<open>TrajContext(sim=True)\<close> at \<open>t = 0\<close>.
\<close>

theorem fig8_vertical_default_ctx_raises:
  "fig8_vertical 0 (default_ctx True) = Inl TypeError_where"
  by (simp add: fig8_vertical_def jit_ctx jnp_where_def Let_def default_ctx_def)

section \<open>Sampling a horizon\<close>

text \<open>
  The body of \<open>generate_horizon_positions\<close> samples as specified: for \<open>n \<ge> 1\<close> and a
  trajectory function that returns \<open>pos t\<close> at every \<open>t\<close>, it yields \<open>n\<close> rows, row \<open>k\<close>
  being the position at \<open>t0 + k * h / (n - 1)\<close> (at \<open>t0\<close> when \<open>n = 1\<close>).
\<close>

lemma generate_horizon_positions_body_samples:
  assumes "1 \<le> n" and "\<And>t. traj_fn t ctx = Inr (pos t)"
  shows "generate_horizon_positions_body traj_fn ctx t0 h n =
           Inr (map (\<lambda>k. pos (if n = 1 then t0 else t0 + real k * (h / real_of_int (n - 1))))
                  [0..<nat n])"
proof (cases "n = 1")
  case True
  then show ?thesis
    using vmap_defined [of "\<lambda>t. traj_fn t ctx" pos "[t0]"] assms(2)
    by (simp add: generate_horizon_positions_body_def)
next
  case False
  with assms(1) have "\<not> n < 0" by simp
  with False show ?thesis
    using vmap_defined [of "\<lambda>t. traj_fn t ctx" pos] assms(2)
    by (simp add: generate_horizon_positions_body_def jnp_linspace_def comp_def)
qed

text \<open>
  Claim C3 says that \<open>generate_horizon_positions(f, ctx, t0, h, n)\<close> returns these \<open>n\<close>
  rows. The decorated function does not return at all: its decorator is the bare
  \<open>@jit\<close>, which declares no static argument, so the call is refused with \<open>TypeError\<close>
  for the function object \<open>f\<close> (and for \<open>ctx\<close>) before the body runs, whatever the
  arguments are.
\<close>

theorem generate_horizon_positions_rejected:
  "generate_horizon_positions traj_fn ctx t_start horizon num_steps = Inl TypeError_jit"
  by (simp add: generate_horizon_positions_def jit_def jax_jit_def)

text \<open>
  \<open>generate_horizon_with_velocity\<close> checks the number of steps first: below 1 it raises
  the invalid-argument error, whatever the other arguments are.
\<close>

lemma generate_horizon_with_velocity_guard:
  "num_steps < 1 \<Longrightarrow>
     generate_horizon_with_velocity jacfwd traj_fn ctx t_start horizon num_steps
       = Inl ValueError_num_steps"
  by (simp add: generate_horizon_with_velocity_def)

text \<open>
  An exception of the trajectory function is the exception of the batched call even for
  an empty batch: the body with \<open>fig8_vertical\<close>, \<open>short\<close> unset and no step.
\<close>

lemma generate_horizon_positions_body_traces:
  "generate_horizon_positions_body fig8_vertical (default_ctx True) 0 1 0
     = Inl TypeError_where"
  using fig8_vertical_short_unset [of "default_ctx True" 0]
  by (simp add: generate_horizon_positions_body_def jnp_linspace_def vmap_def default_ctx_def)

text \<open>
  Claim C2 says that both horizon utilities raise the invalid-argument error for
  \<open>num_steps < 1\<close>. \<open>generate_horizon_positions\<close> has no such check: for
  \<open>num_steps = 0\<close> its body returns the empty batch, and the call of the decorated
  function ends in the \<open>TypeError\<close> of the decorator, as it does for every number of
  steps. Neither outcome is the invalid-argument error.
\<close>

theorem generate_horizon_positions_no_guard:
  "generate_horizon_positions circle_horizontal (default_ctx True) 0 1 0 = Inl TypeError_jit
   \<and> generate_horizon_positions_body circle_horizontal (default_ctx True) 0 1 0 = Inr []"
proof -
  obtain x y z yaw where "circle_horizontal 0 (default_ctx True) = Inr [x, y, z, yaw]"
    using circle_horizontal_defined by blast
  then show ?thesis
    by (simp add: generate_horizon_positions_def generate_horizon_positions_body_def
        jit_def jax_jit_def jnp_linspace_def vmap_def)
qed

end
